theory Spec2Isabelle
  imports Main
begin

section \<open>Values, errors and the platform\<close>

text \<open>
  The SDK methods of \<^verbatim>\<open>src/users.ts\<close> and \<^verbatim>\<open>src/journal.ts\<close> pass JavaScript values
  through: DTOs going out as request bodies, parsed JSON coming back. A value is one of
  the JSON shapes or \<open>undefined\<close>; an object is the list of its own enumerable
  properties, in property order (what \<^verbatim>\<open>Object.entries\<close> returns), each key once.
  Numbers are integers here: no method computes with one.
\<close>

datatype jsvalue =
    Undefined
  | Null
  | Bool bool
  | Number int
  | Str string
  | Array "jsvalue list"
  | Object "(string \<times> jsvalue) list"

type_synonym object = "(string \<times> jsvalue) list"

text \<open>
  Anything can be thrown in JavaScript. \<open>TypeError\<close> and \<open>SyntaxError\<close> are the
  exceptions the runtime itself raises on the paths modelled here; \<open>Thrown\<close> is any other
  thrown or rejected value.
\<close>

datatype error =
    TypeError string
  | SyntaxError string
  | Thrown jsvalue

text \<open>The URL record of the WHATWG URL standard, as held by a \<^verbatim>\<open>URL\<close> object.\<close>

datatype url_path = Opaque string | Segments "string list"

record URL =
  scheme :: string
  username :: string
  password :: string
  host :: "string option"
  port :: "nat option"
  path :: url_path
  query :: "string option"
  fragment :: "string option"

text \<open>
  The functions the methods call that are not part of the two source files: the platform's
  URL parser and serializer, number formatting, \<^verbatim>\<open>URLSearchParams.prototype.toString\<close>,
  \<^verbatim>\<open>JSON.stringify\<close>, and \<^verbatim>\<open>Errors.HandleError\<close> of \<^verbatim>\<open>src/errors.ts\<close>. They are
  parameters of the model: every theorem below that is stated for an arbitrary \<open>env\<close>
  holds whatever these functions compute. Of these only the URL parser can fail:
  \<^verbatim>\<open>JSON.stringify\<close> and \<^verbatim>\<open>String\<close> do not throw on a \<open>jsvalue\<close> (a finite tree
  of plain values), nor does \<^verbatim>\<open>URLSearchParams\<close> on a record of strings.
\<close>

record env =
  url_parser :: "string \<Rightarrow> URL option \<Rightarrow> error + URL"
  url_serializer :: "URL \<Rightarrow> string"
  Number_toString :: "int \<Rightarrow> string"
  URLSearchParams_toString :: "(string \<times> string) list \<Rightarrow> string"
  JSON_stringify :: "jsvalue \<Rightarrow> string"
  HandleError :: "jsvalue \<Rightarrow> int \<Rightarrow> error"

subsection \<open>\<^verbatim>\<open>new URL(input, base)\<close>\<close>

definition is_alpha :: "char \<Rightarrow> bool" where
  "is_alpha c = (let n = (of_char c :: nat) in (65 \<le> n \<and> n \<le> 90) \<or> (97 \<le> n \<and> n \<le> 122))"

definition is_digit :: "char \<Rightarrow> bool" where
  "is_digit c = (let n = (of_char c :: nat) in 48 \<le> n \<and> n \<le> 57)"

definition is_scheme_char :: "char \<Rightarrow> bool" where
  "is_scheme_char c = (is_alpha c \<or> is_digit c \<or> c = CHR ''+'' \<or> c = CHR ''-'' \<or> c = CHR ''.'')"

definition is_c0_or_space :: "char \<Rightarrow> bool" where
  "is_c0_or_space c = ((of_char c :: nat) \<le> 32)"

definition is_tab_or_newline :: "char \<Rightarrow> bool" where
  "is_tab_or_newline c = ((of_char c :: nat) \<in> {9, 10, 13})"

definition url_trim :: "string \<Rightarrow> string" where
  \<comment> \<open>The parser first strips leading and trailing C0 control or space, then removes
      every ASCII tab or newline.\<close>
  "url_trim input =
     filter (\<lambda>c. \<not> is_tab_or_newline c)
       (rev (dropWhile is_c0_or_space (rev (dropWhile is_c0_or_space input))))"

definition has_scheme :: "string \<Rightarrow> bool" where
  \<comment> \<open>Scheme start state and scheme state: an ASCII letter, then letters, digits,
      \<open>+\<close>, \<open>-\<close>, \<open>.\<close>, then a colon.\<close>
  "has_scheme input =
     (case url_trim input of
        [] \<Rightarrow> False
      | c # cs \<Rightarrow> is_alpha c \<and>
          (case dropWhile is_scheme_char cs of [] \<Rightarrow> False | d # _ \<Rightarrow> d = CHR '':''))"

definition new_URL :: "env \<Rightarrow> string \<Rightarrow> URL option \<Rightarrow> error + URL" where
  \<comment> \<open>No scheme state of the URL parser: an input without a scheme and without a base is
      a failure, which the constructor turns into a \<open>TypeError\<close>. Every other input is
      left to the platform's parser.\<close>
  "new_URL env input base =
     (if base = None \<and> \<not> has_scheme input then Inl (TypeError ''Invalid URL'')
      else url_parser env input base)"

definition toString :: "env \<Rightarrow> URL \<Rightarrow> string" where
  "toString env u = url_serializer env u"

subsection \<open>\<^verbatim>\<open>String(value)\<close>, template literals and property access\<close>

fun intersperse :: "string \<Rightarrow> string list \<Rightarrow> string" where
  "intersperse sep [] = []"
| "intersperse sep [x] = x"
| "intersperse sep (x # y # ys) = x @ sep @ intersperse sep (y # ys)"

fun String :: "env \<Rightarrow> jsvalue \<Rightarrow> string" where
  "String env Undefined = ''undefined''"
| "String env Null = ''null''"
| "String env (Bool b) = (if b then ''true'' else ''false'')"
| "String env (Number n) = Number_toString env n"
| "String env (Str s) = s"
| "String env (Array xs) =
     intersperse '',''
       (map (\<lambda>x. if x = Undefined \<or> x = Null then [] else String env x) xs)"
| "String env (Object ps) = ''[object Object]''"

definition nullish :: "jsvalue \<Rightarrow> bool" where
  "nullish v = (v = Undefined \<or> v = Null)"

definition get_prop :: "jsvalue \<Rightarrow> string \<Rightarrow> error + jsvalue" where
  \<comment> \<open>\<^verbatim>\<open>v.k\<close> for the property names read in the source: a \<open>TypeError\<close> on \<open>null\<close> and
      \<open>undefined\<close>, the own property of an object, \<open>undefined\<close> where there is none.\<close>
  "get_prop v k =
     (case v of
        Undefined \<Rightarrow> Inl (TypeError ''Cannot read properties of undefined'')
      | Null \<Rightarrow> Inl (TypeError ''Cannot read properties of null'')
      | Object ps \<Rightarrow> (case map_of ps k of Some x \<Rightarrow> Inr x | None \<Rightarrow> Inr Undefined)
      | _ \<Rightarrow> Inr Undefined)"

definition field :: "object \<Rightarrow> string \<Rightarrow> jsvalue" where
  \<comment> \<open>\<^verbatim>\<open>user.k\<close> where \<open>user\<close> is an object by its type.\<close>
  "field ps k = (case map_of ps k of Some x \<Rightarrow> x | None \<Rightarrow> Undefined)"

definition optional_chain :: "jsvalue \<Rightarrow> string \<Rightarrow> jsvalue" where
  \<comment> \<open>\<^verbatim>\<open>v?.k\<close>\<close>
  "optional_chain v k =
     (if nullish v then Undefined
      else case v of Object ps \<Rightarrow> field ps k | _ \<Rightarrow> Undefined)"

subsection \<open>\<^verbatim>\<open>fetch\<close> and the responses it resolves to\<close>

text \<open>
  The options of a request; \<open>method'\<close> is the property \<^verbatim>\<open>method\<close>.
\<close>

record RequestInit =
  method' :: string
  headers :: "(string \<times> string) list"
  body :: "string option"

text \<open>
  Of a response the methods read \<^verbatim>\<open>ok\<close>, \<^verbatim>\<open>status\<close> and the promise of
  \<^verbatim>\<open>json()\<close>, which resolves to the parsed body or rejects.
\<close>

record Response =
  ok :: bool
  status :: int
  json :: "error + jsvalue"

text \<open>
  The network is the environment of the program: given the requests sent so far and a new
  request, the promise of \<^verbatim>\<open>fetch\<close> resolves to a response or rejects. The program's
  observable effect is the log of the calls of \<^verbatim>\<open>fetch\<close> it has made.
\<close>

type_synonym log = "(string \<times> RequestInit) list"

type_synonym network = "log \<Rightarrow> string \<Rightarrow> RequestInit \<Rightarrow> error + Response"

definition fetch :: "network \<Rightarrow> string \<Rightarrow> RequestInit \<Rightarrow> log \<Rightarrow> (error + Response) \<times> log" where
  "fetch net input init log = (net log input init, log @ [(input, init)])"

subsection \<open>The body every method shares\<close>

text \<open>
  Each method of the two classes ends in the same \<^verbatim>\<open>try\<close> block:
  \<^verbatim>\<open>
  try {
    const response = await fetch(new URL(<reference>, <base>).toString(), options);
    if (!response.ok) {
      const errorRes = await response.json();
      throw Errors.HandleError(errorRes.message, response.status);
    }
    <return the parsed body, or a fixed status object>
  } catch (error) {
    throw error;
  }
  \<close>
  The \<^verbatim>\<open>catch\<close> clause rethrows what it caught, so an error of any step is the error
  of the method.
\<close>

definition throw_unless_ok :: "env \<Rightarrow> Response \<Rightarrow> error + unit" where
  "throw_unless_ok env response =
     (if \<not> ok response then
        (case json response of
           Inl e \<Rightarrow> Inl e
         | Inr errorRes \<Rightarrow>
             (case get_prop errorRes ''message'' of
                Inl e \<Rightarrow> Inl e
              | Inr message \<Rightarrow> Inl (HandleError env message (status response))))
      else Inr ())"

definition try_json ::
  "env \<Rightarrow> network \<Rightarrow> error + URL \<Rightarrow> RequestInit \<Rightarrow> log \<Rightarrow> (error + jsvalue) \<times> log" where
  \<comment> \<open>The \<^verbatim>\<open>try\<close> block that returns \<^verbatim>\<open>await response.json()\<close>; \<open>target\<close> is the
      outcome of the \<^verbatim>\<open>new URL(...)\<close> expression.\<close>
  "try_json env net target options log =
     (case target of
        Inl e \<Rightarrow> (Inl e, log)
      | Inr u \<Rightarrow>
          (case fetch net (toString env u) options log of
             (Inl e, log') \<Rightarrow> (Inl e, log')
           | (Inr response, log') \<Rightarrow>
               (case throw_unless_ok env response of
                  Inl e \<Rightarrow> (Inl e, log')
                | Inr _ \<Rightarrow>
                    (case json response of
                       Inl e \<Rightarrow> (Inl e, log')
                     | Inr data \<Rightarrow> (Inr data, log')))))"

definition try_status ::
  "env \<Rightarrow> network \<Rightarrow> error + URL \<Rightarrow> RequestInit \<Rightarrow> string \<Rightarrow> log \<Rightarrow> (error + jsvalue) \<times> log" where
  \<comment> \<open>The \<^verbatim>\<open>try\<close> block that returns \<^verbatim>\<open>{ status: response.status, message }\<close>
      without reading the body.\<close>
  "try_status env net target options message log =
     (case target of
        Inl e \<Rightarrow> (Inl e, log)
      | Inr u \<Rightarrow>
          (case fetch net (toString env u) options log of
             (Inl e, log') \<Rightarrow> (Inl e, log')
           | (Inr response, log') \<Rightarrow>
               (case throw_unless_ok env response of
                  Inl e \<Rightarrow> (Inl e, log')
                | Inr _ \<Rightarrow>
                    (Inr (Object [(''status'', Number (status response)),
                                  (''message'', Str message)]), log'))))"

definition stringParams :: "env \<Rightarrow> object \<Rightarrow> (string \<times> string) list" where
  \<comment> \<open>\<^verbatim>\<open>Object.fromEntries(Object.entries(queryParams).map(([key, value]) => [key, String(value)]))\<close>\<close>
  "stringParams env queryParams = map (\<lambda>(key, value). (key, String env value)) queryParams"

definition optional :: "string option \<Rightarrow> jsvalue" where
  \<comment> \<open>An optional string parameter: \<open>undefined\<close> when the argument is omitted.\<close>
  "optional a = (case a of None \<Rightarrow> Undefined | Some s \<Rightarrow> Str s)"

section \<open>The Users client\<close>

record Users =
  usersUrl :: URL
  clientsUrl :: "URL option"
  contentType :: string
  usersEndpoint :: string
  searchEndpoint :: string

definition Users_constructor :: "env \<Rightarrow> string \<Rightarrow> string option \<Rightarrow> error + Users" where
  \<comment> \<open>\<^verbatim>\<open>users.ts\<close>, lines 35-51; \<open>clientsUrl'\<close> is \<open>None\<close> when the argument is
      \<open>undefined\<close>.\<close>
  "Users_constructor env usersUrl' clientsUrl' =
     (case new_URL env usersUrl' None of
        Inl e \<Rightarrow> Inl e
      | Inr u \<Rightarrow>
          (case (case clientsUrl' of
                   Some s \<Rightarrow> new_URL env s None
                 | None \<Rightarrow> new_URL env '''' None) of
             Inl e \<Rightarrow> Inl e
           | Inr c \<Rightarrow>
               Inr \<lparr> usersUrl = u, clientsUrl = Some c,
                     contentType = ''application/json'',
                     usersEndpoint = ''users'',
                     searchEndpoint = ''search'' \<rparr>))"

subsection \<open>The request methods of \<^verbatim>\<open>Users\<close>, in source order\<close>

text \<open>
  A method takes the client (\<open>this\<close>), its arguments and the log of the calls of
  \<^verbatim>\<open>fetch\<close> made so far; it yields what its promise settles to (\<open>Inl\<close> a rejection,
  \<open>Inr\<close> the value) and the log afterwards.
\<close>

definition Users_Create ::
  "env \<Rightarrow> network \<Rightarrow> Users \<Rightarrow> object \<Rightarrow> string option \<Rightarrow> log \<Rightarrow> (error + jsvalue) \<times> log" where
  \<comment> \<open>\<^verbatim>\<open>users.ts\<close>, lines 53-95\<close>
  "Users_Create env net this user token log =
     (let options =
          \<lparr> method' = ''POST'',
            headers =
            [(''Content-Type'', contentType this),
             (''Authorization'', ''Bearer '' @ String env (optional token))],
            body = Some (JSON_stringify env (Object user)) \<rparr>
      in try_json env net
          (new_URL env (usersEndpoint this) (Some (usersUrl this)))
          options log)"

definition Users_CreateToken ::
  "env \<Rightarrow> network \<Rightarrow> Users \<Rightarrow> object \<Rightarrow> log \<Rightarrow> (error + jsvalue) \<times> log" where
  \<comment> \<open>\<^verbatim>\<open>users.ts\<close>, lines 97-131\<close>
  "Users_CreateToken env net this login log =
     (let options =
          \<lparr> method' = ''POST'',
            headers =
            [(''Content-Type'', contentType this)],
            body = Some (JSON_stringify env (Object login)) \<rparr>
      in try_json env net
          (new_URL env (usersEndpoint this @ ''/tokens/issue'') (Some (usersUrl this)))
          options log)"

definition Users_RefreshToken ::
  "env \<Rightarrow> network \<Rightarrow> Users \<Rightarrow> string \<Rightarrow> log \<Rightarrow> (error + jsvalue) \<times> log" where
  \<comment> \<open>\<^verbatim>\<open>users.ts\<close>, lines 133-170\<close>
  "Users_RefreshToken env net this refreshToken log =
     (let options =
          \<lparr> method' = ''POST'',
            headers =
            [(''Content-Type'', contentType this),
             (''Authorization'', ''Bearer '' @ refreshToken)],
            body = None \<rparr>
      in try_json env net
          (new_URL env
             (usersEndpoint this @ ''/tokens/refresh'')
             (Some (usersUrl this)))
          options log)"

definition Users_Update ::
  "env \<Rightarrow> network \<Rightarrow> Users \<Rightarrow> object \<Rightarrow> string \<Rightarrow> log \<Rightarrow> (error + jsvalue) \<times> log" where
  \<comment> \<open>\<^verbatim>\<open>users.ts\<close>, lines 172-214\<close>
  "Users_Update env net this user token log =
     (let options =
          \<lparr> method' = ''PATCH'',
            headers =
            [(''Content-Type'', contentType this),
             (''Authorization'', ''Bearer '' @ token)],
            body = Some (JSON_stringify env (Object user)) \<rparr>
      in try_json env net
          (new_URL env
             (usersEndpoint this @ ''/'' @ String env (field user ''id''))
             (Some (usersUrl this)))
          options log)"

definition Users_UpdateEmail ::
  "env \<Rightarrow> network \<Rightarrow> Users \<Rightarrow> object \<Rightarrow> string \<Rightarrow> log \<Rightarrow> (error + jsvalue) \<times> log" where
  \<comment> \<open>\<^verbatim>\<open>users.ts\<close>, lines 216-257\<close>
  "Users_UpdateEmail env net this user token log =
     (let options =
          \<lparr> method' = ''PATCH'',
            headers =
            [(''Content-Type'', contentType this),
             (''Authorization'', ''Bearer '' @ token)],
            body = Some (JSON_stringify env (Object [(''email'', field user ''email'')])) \<rparr>
      in try_json env net
          (new_URL env
             (usersEndpoint this
               @ ''/''
               @ String env (field user ''id'')
               @ ''/email'')
             (Some (usersUrl this)))
          options log)"

definition Users_UpdateUsername ::
  "env \<Rightarrow> network \<Rightarrow> Users \<Rightarrow> object \<Rightarrow> string \<Rightarrow> log \<Rightarrow> (error + jsvalue) \<times> log" where
  \<comment> \<open>\<^verbatim>\<open>users.ts\<close>, lines 259-302\<close>
  "Users_UpdateUsername env net this user token log =
     (let options =
          \<lparr> method' = ''PATCH'',
            headers =
            [(''Content-Type'', contentType this),
             (''Authorization'', ''Bearer '' @ token)],
            body = Some (JSON_stringify env
                    (Object [(''username'',
                       optional_chain (field user ''credentials'') ''username'')])) \<rparr>
      in try_json env net
          (new_URL env
             (usersEndpoint this
               @ ''/''
               @ String env (field user ''id'')
               @ ''/username'')
             (Some (usersUrl this)))
          options log)"

definition Users_UpdateProfilePicture ::
  "env \<Rightarrow> network \<Rightarrow> Users \<Rightarrow> object \<Rightarrow> string \<Rightarrow> log \<Rightarrow> (error + jsvalue) \<times> log" where
  \<comment> \<open>\<^verbatim>\<open>users.ts\<close>, lines 304-345\<close>
  "Users_UpdateProfilePicture env net this user token log =
     (let options =
          \<lparr> method' = ''PATCH'',
            headers =
            [(''Content-Type'', contentType this),
             (''Authorization'', ''Bearer '' @ token)],
            body = Some (JSON_stringify env
                    (Object [(''profile_picture'', field user ''profile_picture'')])) \<rparr>
      in try_json env net
          (new_URL env
             (usersEndpoint this
               @ ''/''
               @ String env (field user ''id'')
               @ ''/picture'')
             (Some (usersUrl this)))
          options log)"

definition Users_UpdateUserTags ::
  "env \<Rightarrow> network \<Rightarrow> Users \<Rightarrow> object \<Rightarrow> string \<Rightarrow> log \<Rightarrow> (error + jsvalue) \<times> log" where
  \<comment> \<open>\<^verbatim>\<open>users.ts\<close>, lines 347-393\<close>
  "Users_UpdateUserTags env net this user token log =
     (let options =
          \<lparr> method' = ''PATCH'',
            headers =
            [(''Content-Type'', contentType this),
             (''Authorization'', ''Bearer '' @ token)],
            body = Some (JSON_stringify env (Object user)) \<rparr>
      in try_json env net
          (new_URL env
             (usersEndpoint this
               @ ''/''
               @ String env (field user ''id'')
               @ ''/tags'')
             (Some (usersUrl this)))
          options log)"

definition Users_UpdateUserPassword ::
  "env \<Rightarrow> network \<Rightarrow> Users \<Rightarrow> string \<Rightarrow> string \<Rightarrow> string \<Rightarrow> log \<Rightarrow> (error + jsvalue) \<times> log" where
  \<comment> \<open>\<^verbatim>\<open>users.ts\<close>, lines 395-438\<close>
  "Users_UpdateUserPassword env net this oldSecret newSecret token log =
     (let options =
          \<lparr> method' = ''PATCH'',
            headers =
            [(''Content-Type'', contentType this),
             (''Authorization'', ''Bearer '' @ token)],
            body = Some (JSON_stringify env
                    (Object [(''old_secret'', Str oldSecret), (''new_secret'', Str newSecret)])) \<rparr>
      in try_json env net
          (new_URL env (usersEndpoint this @ ''/secret'') (Some (usersUrl this)))
          options log)"

definition Users_UpdateUserRole ::
  "env \<Rightarrow> network \<Rightarrow> Users \<Rightarrow> object \<Rightarrow> string \<Rightarrow> log \<Rightarrow> (error + jsvalue) \<times> log" where
  \<comment> \<open>\<^verbatim>\<open>users.ts\<close>, lines 440-483\<close>
  "Users_UpdateUserRole env net this user token log =
     (let options =
          \<lparr> method' = ''PATCH'',
            headers =
            [(''Content-Type'', contentType this),
             (''Authorization'', ''Bearer '' @ token)],
            body = Some (JSON_stringify env (Object user)) \<rparr>
      in try_json env net
          (new_URL env
             (usersEndpoint this
               @ ''/''
               @ String env (field user ''id'')
               @ ''/role'')
             (Some (usersUrl this)))
          options log)"

definition Users_User ::
  "env \<Rightarrow> network \<Rightarrow> Users \<Rightarrow> string \<Rightarrow> string \<Rightarrow> log \<Rightarrow> (error + jsvalue) \<times> log" where
  \<comment> \<open>\<^verbatim>\<open>users.ts\<close>, lines 485-521\<close>
  "Users_User env net this userId token log =
     (let options =
          \<lparr> method' = ''GET'',
            headers =
            [(''Content-Type'', contentType this),
             (''Authorization'', ''Bearer '' @ token)],
            body = None \<rparr>
      in try_json env net
          (new_URL env (usersEndpoint this @ ''/'' @ userId) (Some (usersUrl this)))
          options log)"

definition Users_UserProfile ::
  "env \<Rightarrow> network \<Rightarrow> Users \<Rightarrow> string \<Rightarrow> log \<Rightarrow> (error + jsvalue) \<times> log" where
  \<comment> \<open>\<^verbatim>\<open>users.ts\<close>, lines 523-556\<close>
  "Users_UserProfile env net this token log =
     (let options =
          \<lparr> method' = ''GET'',
            headers =
            [(''Content-Type'', contentType this),
             (''Authorization'', ''Bearer '' @ token)],
            body = None \<rparr>
      in try_json env net
          (new_URL env (usersEndpoint this @ ''/profile'') (Some (usersUrl this)))
          options log)"

definition Users_Users ::
  "env \<Rightarrow> network \<Rightarrow> Users \<Rightarrow> object \<Rightarrow> string \<Rightarrow> log \<Rightarrow> (error + jsvalue) \<times> log" where
  \<comment> \<open>\<^verbatim>\<open>users.ts\<close>, lines 558-611\<close>
  "Users_Users env net this queryParams token log =
     (let options =
          \<lparr> method' = ''GET'',
            headers =
            [(''Content-Type'', contentType this),
             (''Authorization'', ''Bearer '' @ token)],
            body = None \<rparr>
      in try_json env net
          (new_URL env
             (usersEndpoint this @ ''?''
                @ URLSearchParams_toString env (stringParams env queryParams))
             (Some (usersUrl this)))
          options log)"

definition Users_Disable ::
  "env \<Rightarrow> network \<Rightarrow> Users \<Rightarrow> object \<Rightarrow> string \<Rightarrow> log \<Rightarrow> (error + jsvalue) \<times> log" where
  \<comment> \<open>\<^verbatim>\<open>users.ts\<close>, lines 613-654\<close>
  "Users_Disable env net this user token log =
     (let options =
          \<lparr> method' = ''POST'',
            headers =
            [(''Content-Type'', contentType this),
             (''Authorization'', ''Bearer '' @ token)],
            body = Some (JSON_stringify env (Object user)) \<rparr>
      in try_json env net
          (new_URL env
             (usersEndpoint this
               @ ''/''
               @ String env (field user ''id'')
               @ ''/disable'')
             (Some (usersUrl this)))
          options log)"

definition Users_Enable ::
  "env \<Rightarrow> network \<Rightarrow> Users \<Rightarrow> object \<Rightarrow> string \<Rightarrow> log \<Rightarrow> (error + jsvalue) \<times> log" where
  \<comment> \<open>\<^verbatim>\<open>users.ts\<close>, lines 656-697\<close>
  "Users_Enable env net this user token log =
     (let options =
          \<lparr> method' = ''POST'',
            headers =
            [(''Content-Type'', contentType this),
             (''Authorization'', ''Bearer '' @ token)],
            body = Some (JSON_stringify env (Object user)) \<rparr>
      in try_json env net
          (new_URL env
             (usersEndpoint this
               @ ''/''
               @ String env (field user ''id'')
               @ ''/enable'')
             (Some (usersUrl this)))
          options log)"

definition Users_ListUserGroups ::
  "env \<Rightarrow> network \<Rightarrow> Users \<Rightarrow> string \<Rightarrow> string \<Rightarrow> object \<Rightarrow> string \<Rightarrow> log \<Rightarrow> (error + jsvalue) \<times> log" where
  \<comment> \<open>\<^verbatim>\<open>users.ts\<close>, lines 699-746\<close>
  "Users_ListUserGroups env net this domainId userId queryParams token log =
     (let options =
          \<lparr> method' = ''GET'',
            headers =
            [(''Content-Type'', contentType this),
             (''Authorization'', ''Bearer '' @ token)],
            body = None \<rparr>
      in try_json env net
          (new_URL env
             (domainId @ ''/'' @ usersEndpoint this @ ''/'' @ userId @ ''/groups?''
                @ URLSearchParams_toString env (stringParams env queryParams))
             (Some (usersUrl this)))
          options log)"

definition Users_ListUserClients ::
  "env \<Rightarrow> network \<Rightarrow> Users \<Rightarrow> string \<Rightarrow> string \<Rightarrow> object \<Rightarrow> string \<Rightarrow> log \<Rightarrow> (error + jsvalue) \<times> log" where
  \<comment> \<open>\<^verbatim>\<open>users.ts\<close>, lines 748-794\<close>
  "Users_ListUserClients env net this userId domainId queryParams token log =
     (let options =
          \<lparr> method' = ''GET'',
            headers =
            [(''Content-Type'', contentType this),
             (''Authorization'', ''Bearer '' @ token)],
            body = None \<rparr>
      in try_json env net
          (new_URL env
             (domainId @ ''/'' @ usersEndpoint this @ ''/'' @ userId @ ''/clients?''
                @ URLSearchParams_toString env (stringParams env queryParams))
             (clientsUrl this))
          options log)"

definition Users_ListUserChannels ::
  "env \<Rightarrow> network \<Rightarrow> Users \<Rightarrow> string \<Rightarrow> string \<Rightarrow> object \<Rightarrow> string \<Rightarrow> log \<Rightarrow> (error + jsvalue) \<times> log" where
  \<comment> \<open>\<^verbatim>\<open>users.ts\<close>, lines 796-843\<close>
  "Users_ListUserChannels env net this domainId userId queryParams token log =
     (let options =
          \<lparr> method' = ''GET'',
            headers =
            [(''Content-Type'', contentType this),
             (''Authorization'', ''Bearer '' @ token)],
            body = None \<rparr>
      in try_json env net
          (new_URL env
             (domainId @ ''/'' @ usersEndpoint this @ ''/'' @ userId @ ''/channels?''
                @ URLSearchParams_toString env (stringParams env queryParams))
             (clientsUrl this))
          options log)"

definition Users_ResetPasswordRequest ::
  "env \<Rightarrow> network \<Rightarrow> Users \<Rightarrow> string \<Rightarrow> string \<Rightarrow> log \<Rightarrow> (error + jsvalue) \<times> log" where
  \<comment> \<open>\<^verbatim>\<open>users.ts\<close>, lines 845-882\<close>
  "Users_ResetPasswordRequest env net this email hostUrl log =
     (let options =
          \<lparr> method' = ''POST'',
            headers =
            [(''Content-Type'', contentType this),
             (''Referer'', hostUrl)],
            body = Some (JSON_stringify env (Object [(''email'', Str email)])) \<rparr>
      in try_status env net
          (new_URL env (''/password/reset-request'') (Some (usersUrl this)))
          options ''Email with reset link sent successfully'' log)"

definition Users_ResetPassword ::
  "env \<Rightarrow> network \<Rightarrow> Users \<Rightarrow> string \<Rightarrow> string \<Rightarrow> string \<Rightarrow> log \<Rightarrow> (error + jsvalue) \<times> log" where
  \<comment> \<open>\<^verbatim>\<open>users.ts\<close>, lines 884-923\<close>
  "Users_ResetPassword env net this password' confPass token log =
     (let options =
          \<lparr> method' = ''PUT'',
            headers =
            [(''Content-Type'', contentType this)],
            body = Some (JSON_stringify env
                    (Object [(''token'', Str token), (''password'', Str password'),
                            (''confirm_password'', Str confPass)])) \<rparr>
      in try_status env net
          (new_URL env (''/password/reset'') (Some (usersUrl this)))
          options ''Password reset successfully'' log)"

definition Users_DeleteUser ::
  "env \<Rightarrow> network \<Rightarrow> Users \<Rightarrow> string \<Rightarrow> string \<Rightarrow> log \<Rightarrow> (error + jsvalue) \<times> log" where
  \<comment> \<open>\<^verbatim>\<open>users.ts\<close>, lines 925-959\<close>
  "Users_DeleteUser env net this userId token log =
     (let options =
          \<lparr> method' = ''DELETE'',
            headers =
            [(''Authorization'', ''Bearer '' @ token)],
            body = None \<rparr>
      in try_status env net
          (new_URL env (usersEndpoint this @ ''/'' @ userId) (Some (usersUrl this)))
          options ''User deleted successfully'' log)"

definition Users_SearchUsers ::
  "env \<Rightarrow> network \<Rightarrow> Users \<Rightarrow> object \<Rightarrow> string \<Rightarrow> log \<Rightarrow> (error + jsvalue) \<times> log" where
  \<comment> \<open>\<^verbatim>\<open>users.ts\<close>, lines 961-1010\<close>
  "Users_SearchUsers env net this queryParams token log =
     (let options =
          \<lparr> method' = ''GET'',
            headers =
            [(''Content-Type'', contentType this),
             (''Authorization'', ''Bearer '' @ token)],
            body = None \<rparr>
      in try_json env net
          (new_URL env
             (usersEndpoint this @ ''/'' @ searchEndpoint this @ ''?''
                @ URLSearchParams_toString env (stringParams env queryParams))
             (Some (usersUrl this)))
          options log)"

subsection \<open>Calling a method on a client\<close>

text \<open>
  A call names one public method of \<^verbatim>\<open>Users\<close> with its arguments. The state of the
  program is the client object and the log. No method body assigns to a field of
  \<^verbatim>\<open>this\<close> (all five are \<^verbatim>\<open>private readonly\<close>), so the client after a call is the
  client before it.
\<close>

datatype Users_call =
    Call_Create object "string option"
  | Call_CreateToken object
  | Call_RefreshToken string
  | Call_Update object string
  | Call_UpdateEmail object string
  | Call_UpdateUsername object string
  | Call_UpdateProfilePicture object string
  | Call_UpdateUserTags object string
  | Call_UpdateUserPassword string string string
  | Call_UpdateUserRole object string
  | Call_User string string
  | Call_UserProfile string
  | Call_Users object string
  | Call_Disable object string
  | Call_Enable object string
  | Call_ListUserGroups string string object string
  | Call_ListUserClients string string object string
  | Call_ListUserChannels string string object string
  | Call_ResetPasswordRequest string string
  | Call_ResetPassword string string string
  | Call_DeleteUser string string
  | Call_SearchUsers object string

fun Users_run :: "env \<Rightarrow> network \<Rightarrow> Users \<Rightarrow> Users_call \<Rightarrow> log \<Rightarrow> (error + jsvalue) \<times> log" where
  "Users_run env net this (Call_Create user token) log =
     Users_Create env net this user token log"
| "Users_run env net this (Call_CreateToken login) log =
     Users_CreateToken env net this login log"
| "Users_run env net this (Call_RefreshToken refreshToken) log =
     Users_RefreshToken env net this refreshToken log"
| "Users_run env net this (Call_Update user token) log =
     Users_Update env net this user token log"
| "Users_run env net this (Call_UpdateEmail user token) log =
     Users_UpdateEmail env net this user token log"
| "Users_run env net this (Call_UpdateUsername user token) log =
     Users_UpdateUsername env net this user token log"
| "Users_run env net this (Call_UpdateProfilePicture user token) log =
     Users_UpdateProfilePicture env net this user token log"
| "Users_run env net this (Call_UpdateUserTags user token) log =
     Users_UpdateUserTags env net this user token log"
| "Users_run env net this (Call_UpdateUserPassword oldSecret newSecret token) log =
     Users_UpdateUserPassword env net this oldSecret newSecret token log"
| "Users_run env net this (Call_UpdateUserRole user token) log =
     Users_UpdateUserRole env net this user token log"
| "Users_run env net this (Call_User userId token) log =
     Users_User env net this userId token log"
| "Users_run env net this (Call_UserProfile token) log =
     Users_UserProfile env net this token log"
| "Users_run env net this (Call_Users queryParams token) log =
     Users_Users env net this queryParams token log"
| "Users_run env net this (Call_Disable user token) log =
     Users_Disable env net this user token log"
| "Users_run env net this (Call_Enable user token) log =
     Users_Enable env net this user token log"
| "Users_run env net this (Call_ListUserGroups domainId userId queryParams token) log =
     Users_ListUserGroups env net this domainId userId queryParams token log"
| "Users_run env net this (Call_ListUserClients userId domainId queryParams token) log =
     Users_ListUserClients env net this userId domainId queryParams token log"
| "Users_run env net this (Call_ListUserChannels domainId userId queryParams token) log =
     Users_ListUserChannels env net this domainId userId queryParams token log"
| "Users_run env net this (Call_ResetPasswordRequest email hostUrl) log =
     Users_ResetPasswordRequest env net this email hostUrl log"
| "Users_run env net this (Call_ResetPassword password' confPass token) log =
     Users_ResetPassword env net this password' confPass token log"
| "Users_run env net this (Call_DeleteUser userId token) log =
     Users_DeleteUser env net this userId token log"
| "Users_run env net this (Call_SearchUsers queryParams token) log =
     Users_SearchUsers env net this queryParams token log"


section \<open>The Journal client\<close>

record Journal =
  journalsUrl :: URL
  journalsEndpoint :: string
  contentType :: string


definition Journal_Journal ::
  "env \<Rightarrow> network \<Rightarrow> Journal \<Rightarrow> string \<Rightarrow> string \<Rightarrow> string \<Rightarrow> object \<Rightarrow> string \<Rightarrow> log
     \<Rightarrow> (error + jsvalue) \<times> log" where
  \<comment> \<open>\<^verbatim>\<open>journal.ts\<close>, lines 37-76\<close>
  "Journal_Journal env net this entityType entityId domainId queryParams token log =
     (let options = \<lparr> method' = ''GET'',
                      headers =
                     [(''Content-Type'', contentType this),
                      (''Authorization'', ''Bearer '' @ token)],
                      body = None \<rparr>
      in try_json env net
          (new_URL env
             (domainId @ ''/'' @ journalsEndpoint this @ ''/'' @ entityType @ ''/'' @ entityId
                @ ''?'' @ URLSearchParams_toString env (stringParams env queryParams))
             (Some (journalsUrl this)))
          options log)"

datatype Journal_call = Call_Journal string string string object string

fun Journal_run :: "env \<Rightarrow> network \<Rightarrow> Journal \<Rightarrow> Journal_call \<Rightarrow> log \<Rightarrow> (error + jsvalue) \<times> log" where
  "Journal_run env net this (Call_Journal entityType entityId domainId queryParams token) log =
     Journal_Journal env net this entityType entityId domainId queryParams token log"


section \<open>A reference platform\<close>

text \<open>
  One instance of the platform functions, for running the methods on concrete inputs. It
  follows the URL standard, the form-urlencoded serializer and \<^verbatim>\<open>JSON.stringify\<close> on
  plain inputs: URLs made of a scheme, an optional \<open>host[:port]\<close> authority, a path, a
  query and a fragment, written in characters that need no percent-encoding in a URL;
  integers below \<open>10\<^sup>2\<^sup>1\<close> in absolute value; strings without control characters. It
  does not model credentials, IP address hosts, internationalised domain names,
  backslashes or the \<^verbatim>\<open>file\<close> scheme.
\<close>

definition digit_char :: "nat \<Rightarrow> char" where
  "digit_char d = ''0123456789'' ! d"

fun decimal :: "nat \<Rightarrow> string" where
  "decimal n =
     (if 10 \<le> n then decimal (n div 10) @ [digit_char (n mod 10)]
      else [digit_char n])"

declare decimal.simps [simp del]

definition Number_text :: "int \<Rightarrow> string" where
  \<comment> \<open>\<^verbatim>\<open>Number.prototype.toString\<close> on an integer below \<open>10\<^sup>2\<^sup>1\<close> in absolute value.\<close>
  "Number_text i = (if 0 \<le> i then decimal (nat i) else CHR ''-'' # decimal (nat (- i)))"

definition nat_of_digits :: "string \<Rightarrow> nat" where
  "nat_of_digits ds = foldl (\<lambda>n c. 10 * n + (of_char c - 48)) 0 ds"

definition split_first :: "char \<Rightarrow> string \<Rightarrow> string \<times> string option" where
  \<comment> \<open>The text before the first \<open>c\<close>, and the text after it when there is one.\<close>
  "split_first c s =
     (case dropWhile (\<lambda>x. x \<noteq> c) s of
        [] \<Rightarrow> (s, None)
      | _ # rest \<Rightarrow> (takeWhile (\<lambda>x. x \<noteq> c) s, Some rest))"

fun split_all :: "char \<Rightarrow> string \<Rightarrow> string list" where
  "split_all c [] = [[]]"
| "split_all c (x # xs) =
     (if x = c then [] # split_all c xs
      else (case split_all c xs of [] \<Rightarrow> [[x]] | w # ws \<Rightarrow> (x # w) # ws))"

definition lower :: "char \<Rightarrow> char" where
  "lower c =
     (case map_of (zip ''ABCDEFGHIJKLMNOPQRSTUVWXYZ'' ''abcdefghijklmnopqrstuvwxyz'') c of
        Some l \<Rightarrow> l
      | None \<Rightarrow> c)"

definition special_scheme :: "string \<Rightarrow> bool" where
  "special_scheme s = (s \<in> set [''http'', ''https'', ''ws'', ''wss'', ''ftp''])"

definition default_port :: "string \<Rightarrow> nat option" where
  "default_port s =
     (if s = ''http'' \<or> s = ''ws'' then Some 80
      else if s = ''https'' \<or> s = ''wss'' then Some 443
      else if s = ''ftp'' then Some 21 else None)"

definition shorten :: "string list \<Rightarrow> string list" where
  "shorten p = butlast p"

fun path_segments :: "string list \<Rightarrow> string list \<Rightarrow> string list" where
  \<comment> \<open>Path state: appends the segments of the input to the path so far, resolving the
      dot segments.\<close>
  "path_segments acc [] = acc"
| "path_segments acc [seg] =
     (if seg = ''..'' then shorten acc @ [[]]
      else if seg = ''.'' then acc @ [[]]
      else acc @ [seg])"
| "path_segments acc (seg # segs) =
     (if seg = ''..'' then path_segments (shorten acc) segs
      else if seg = ''.'' then path_segments acc segs
      else path_segments (acc @ [seg]) segs)"

definition parse_authority :: "string \<Rightarrow> string \<Rightarrow> error + (string option \<times> nat option)" where
  "parse_authority sch auth =
     (case split_first CHR '':'' auth of
        (h, None) \<Rightarrow>
          (if h = [] \<and> special_scheme sch then Inl (TypeError ''Invalid URL'')
           else Inr (Some (map lower h), None))
      | (h, Some p) \<Rightarrow>
          (if h = [] \<or> \<not> list_all is_digit p \<or> 65535 < nat_of_digits p
           then Inl (TypeError ''Invalid URL'')
           else Inr (Some (map lower h),
                     if p = [] \<or> Some (nat_of_digits p) = default_port sch then None
                     else Some (nat_of_digits p))))"

definition url_parser_basic :: "string \<Rightarrow> URL option \<Rightarrow> error + URL" where
  "url_parser_basic input base =
     (let trimmed = url_trim input;
          (before_fragment, frag) = split_first CHR ''#'' trimmed;
          (before_query, qry) = split_first CHR ''?'' before_fragment
      in if has_scheme input then
           (let sch = map lower (takeWhile (\<lambda>c. c \<noteq> CHR '':'') before_query);
                rest = drop 1 (dropWhile (\<lambda>c. c \<noteq> CHR '':'') before_query)
            in if special_scheme sch \<or> take 2 rest = ''//'' then
                 (let after = dropWhile (\<lambda>c. c = CHR ''/'') rest;
                      auth = takeWhile (\<lambda>c. c \<noteq> CHR ''/'') after;
                      p = dropWhile (\<lambda>c. c \<noteq> CHR ''/'') after
                  in case parse_authority sch auth of
                       Inl e \<Rightarrow> Inl e
                     | Inr (h, pt) \<Rightarrow>
                         Inr \<lparr> scheme = sch, username = [], password = [], host = h, port = pt,
                               path = Segments
                                 (if p = [] then (if special_scheme sch then [[]] else [])
                                  else path_segments [] (split_all CHR ''/'' (drop 1 p))),
                               query = qry, fragment = frag \<rparr>)
               else if take 1 rest = ''/'' then
                 Inr \<lparr> scheme = sch, username = [], password = [], host = None, port = None,
                       path = Segments (path_segments [] (split_all CHR ''/'' (drop 1 rest))),
                       query = qry, fragment = frag \<rparr>
               else
                 Inr \<lparr> scheme = sch, username = [], password = [], host = None, port = None,
                       path = Opaque rest, query = qry, fragment = frag \<rparr>)
         else
           (case base of
              None \<Rightarrow> Inl (TypeError ''Invalid URL'')
            | Some b \<Rightarrow>
                (case path b of
                   Opaque _ \<Rightarrow>
                     (if take 1 trimmed = ''#'' then Inr (b \<lparr> fragment := frag \<rparr>)
                      else Inl (TypeError ''Invalid URL''))
                 | Segments bp \<Rightarrow>
                     (if before_query = [] then
                        Inr (b \<lparr> query := (if qry = None then query b else qry),
                                 fragment := frag \<rparr>)
                      else if take 1 before_query = ''/'' then
                        Inr (b \<lparr> path := Segments
                                   (path_segments [] (split_all CHR ''/'' (drop 1 before_query))),
                                 query := qry, fragment := frag \<rparr>)
                      else
                        Inr (b \<lparr> path := Segments
                                   (path_segments (shorten bp) (split_all CHR ''/'' before_query)),
                                 query := qry, fragment := frag \<rparr>)))))"

definition url_serializer_basic :: "URL \<Rightarrow> string" where
  "url_serializer_basic u =
     scheme u @ '':''
     @ (case host u of
          None \<Rightarrow> []
        | Some h \<Rightarrow>
            ''//'' @ h @ (case port u of None \<Rightarrow> [] | Some p \<Rightarrow> '':'' @ decimal p))
     @ (case path u of
          Opaque s \<Rightarrow> s
        | Segments segs \<Rightarrow>
            (if host u = None \<and> 1 < length segs \<and> hd segs = [] then ''/.'' else [])
            @ concat (map (\<lambda>seg. ''/'' @ seg) segs))
     @ (case query u of None \<Rightarrow> [] | Some q \<Rightarrow> ''?'' @ q)
     @ (case fragment u of None \<Rightarrow> [] | Some f \<Rightarrow> ''#'' @ f)"

definition hex_digit :: "nat \<Rightarrow> char" where
  "hex_digit n = ''0123456789ABCDEF'' ! n"

definition form_encode :: "string \<Rightarrow> string" where
  \<comment> \<open>application/x-www-form-urlencoded byte serializer\<close>
  "form_encode s =
     concat (map (\<lambda>c.
       if c = CHR '' '' then ''+''
       else if is_alpha c \<or> is_digit c \<or> c \<in> set ''*-._'' then [c]
       else [CHR ''%'', hex_digit ((of_char c :: nat) div 16), hex_digit ((of_char c :: nat) mod 16)]) s)"

definition form_urlencoded :: "(string \<times> string) list \<Rightarrow> string" where
  "form_urlencoded ps = intersperse ''&'' (map (\<lambda>(k, v). form_encode k @ ''='' @ form_encode v) ps)"

definition json_quote :: "string \<Rightarrow> string" where
  "json_quote s =
     [CHR 0x22]
     @ concat (map (\<lambda>c. if c = CHR 0x22 \<or> c = CHR 0x5C then [CHR 0x5C, c] else [c]) s)
     @ [CHR 0x22]"

fun json_text :: "jsvalue \<Rightarrow> string" where
  "json_text Undefined = ''null''"
| "json_text Null = ''null''"
| "json_text (Bool b) = (if b then ''true'' else ''false'')"
| "json_text (Number n) = Number_text n"
| "json_text (Str s) = json_quote s"
| "json_text (Array xs) = ''['' @ intersperse '','' (map json_text xs) @ '']''"
| "json_text (Object ps) =
     ''{'' @ intersperse '',''
              (map (\<lambda>(k, v). json_quote k @ '':'' @ json_text v)
                 (filter (\<lambda>(k, v). v \<noteq> Undefined) ps)) @ ''}''"

text \<open>
  Modelled from the spec: \<^verbatim>\<open>Errors.HandleError\<close> (\<^verbatim>\<open>src/errors.ts\<close>, not among the
  sources) builds the "single error type carrying the server's message and HTTP status".
\<close>

definition HandleError_basic :: "jsvalue \<Rightarrow> int \<Rightarrow> error" where
  "HandleError_basic errorMessage statusCode =
     Thrown (Object [(''status'', Number statusCode), (''error'', errorMessage)])"

definition reference_env :: env where
  "reference_env =
     \<lparr> url_parser = url_parser_basic,
       url_serializer = url_serializer_basic,
       Number_toString = Number_text,
       URLSearchParams_toString = form_urlencoded,
       JSON_stringify = json_text,
       HandleError = HandleError_basic \<rparr>"

section \<open>Notions used in the statements\<close>

text \<open>
  Three methods of \<^verbatim>\<open>Users\<close> end in the block that returns a status object with a
  fixed message; \<open>fixed_message\<close> names them and their messages. All other methods
  return the parsed body.
\<close>

fun fixed_message :: "Users_call \<Rightarrow> string option" where
  "fixed_message (Call_ResetPasswordRequest email hostUrl) = Some ''Email with reset link sent successfully''"
| "fixed_message (Call_ResetPassword password' confPass token) = Some ''Password reset successfully''"
| "fixed_message (Call_DeleteUser userId token) = Some ''User deleted successfully''"
| "fixed_message _ = None"

text \<open>
  What the shared \<^verbatim>\<open>try\<close> block makes of the settled promise of \<^verbatim>\<open>fetch\<close>: the
  rejection, the error of a non-success response, or the value returned.
\<close>

definition settle :: "env \<Rightarrow> string option \<Rightarrow> error + Response \<Rightarrow> error + jsvalue" where
  "settle env m fetched =
     (case fetched of
        Inl e \<Rightarrow> Inl e
      | Inr response \<Rightarrow>
          (case throw_unless_ok env response of
             Inl e \<Rightarrow> Inl e
           | Inr _ \<Rightarrow>
               (case m of
                  None \<Rightarrow> json response
                | Some message \<Rightarrow>
                    Inr (Object [(''status'', Number (status response)), (''message'', Str message)]))))"

text \<open>
  The token a call sends as its bearer credential, if it sends one: the \<open>token\<close>
  argument (the text \<open>undefined\<close> when \<^verbatim>\<open>Create\<close> is called without it), the refresh
  token of \<^verbatim>\<open>RefreshToken\<close>; none for \<^verbatim>\<open>CreateToken\<close>, \<^verbatim>\<open>ResetPasswordRequest\<close> and
  \<^verbatim>\<open>ResetPassword\<close>.
\<close>

fun credential :: "Users_call \<Rightarrow> string option" where
  "credential (Call_Create user token) = Some (case token of None \<Rightarrow> ''undefined'' | Some t \<Rightarrow> t)"
| "credential (Call_CreateToken login) = None"
| "credential (Call_RefreshToken refreshToken) = Some refreshToken"
| "credential (Call_Update user token) = Some token"
| "credential (Call_UpdateEmail user token) = Some token"
| "credential (Call_UpdateUsername user token) = Some token"
| "credential (Call_UpdateProfilePicture user token) = Some token"
| "credential (Call_UpdateUserTags user token) = Some token"
| "credential (Call_UpdateUserPassword oldSecret newSecret token) = Some token"
| "credential (Call_UpdateUserRole user token) = Some token"
| "credential (Call_User userId token) = Some token"
| "credential (Call_UserProfile token) = Some token"
| "credential (Call_Users queryParams token) = Some token"
| "credential (Call_Disable user token) = Some token"
| "credential (Call_Enable user token) = Some token"
| "credential (Call_ListUserGroups domainId userId queryParams token) = Some token"
| "credential (Call_ListUserClients userId domainId queryParams token) = Some token"
| "credential (Call_ListUserChannels domainId userId queryParams token) = Some token"
| "credential (Call_ResetPasswordRequest email hostUrl) = None"
| "credential (Call_ResetPassword password' confPass token) = None"
| "credential (Call_DeleteUser userId token) = Some token"
| "credential (Call_SearchUsers queryParams token) = Some token"




subsection \<open>Concrete networks, clients and responses\<close>

text \<open>
  A network that answers every request with one response, and one that rejects every
  request; the clients \<^verbatim>\<open>new Users({usersUrl: "http://localhost:9002", clientsUrl:
  "http://localhost:9006"})\<close>, \<^verbatim>\<open>new Journal("http://localhost:9021")\<close>,
  \<^verbatim>\<open>new Users({usersUrl: "mailto:a", clientsUrl: "mailto:a"})\<close> and
  \<^verbatim>\<open>new Users({usersUrl: "http://localhost/a/", clientsUrl: "http://localhost/b/"})\<close>.
\<close>

definition answer :: "Response \<Rightarrow> network" where
  "answer response = (\<lambda>log input init. Inr response)"

definition refuse :: "error \<Rightarrow> network" where
  "refuse e = (\<lambda>log input init. Inl e)"

definition http_url :: "string \<Rightarrow> nat option \<Rightarrow> string list \<Rightarrow> string option \<Rightarrow> URL" where
  "http_url h p segs q =
     \<lparr> scheme = ''http'', username = [], password = [], host = Some h, port = p,
       path = Segments segs, query = q, fragment = None \<rparr>"

definition mailto_url :: URL where
  "mailto_url =
     \<lparr> scheme = ''mailto'', username = [], password = [], host = None, port = None,
       path = Opaque ''a'', query = None, fragment = None \<rparr>"

definition example_users :: Users where
  "example_users =
     \<lparr> usersUrl = http_url ''localhost'' (Some 9002) [[]] None,
       clientsUrl = Some (http_url ''localhost'' (Some 9006) [[]] None),
       contentType = ''application/json'',
       usersEndpoint = ''users'',
       searchEndpoint = ''search'' \<rparr>"




definition not_found :: Response where
  "not_found = \<lparr> ok = False, status = 404, json = Inr (Object [(''message'', Str ''not found'')]) \<rparr>"

definition bad_gateway :: Response where
  "bad_gateway =
     \<lparr> ok = False, status = 502, json = Inl (SyntaxError ''Unexpected token < in JSON'') \<rparr>"

definition null_body :: Response where
  "null_body = \<lparr> ok = False, status = 500, json = Inr Null \<rparr>"

definition found :: Response where
  "found = \<lparr> ok = True, status = 200, json = Inr (Object [(''id'', Str ''u1'')]) \<rparr>"

definition unparsable :: Response where
  "unparsable = \<lparr> ok = True, status = 200, json = Inl (SyntaxError ''Unexpected end of JSON input'') \<rparr>"

definition get_with :: "string \<Rightarrow> RequestInit" where
  "get_with token =
     \<lparr> method' = ''GET'',
       headers = [(''Content-Type'', ''application/json''), (''Authorization'', ''Bearer '' @ token)],
       body = None \<rparr>"

definition delete_with :: "string \<Rightarrow> RequestInit" where
  "delete_with token =
     \<lparr> method' = ''DELETE'', headers = [(''Authorization'', ''Bearer '' @ token)], body = None \<rparr>"

definition post_undefined :: "string \<Rightarrow> RequestInit" where
  "post_undefined text =
     \<lparr> method' = ''POST'',
       headers = [(''Content-Type'', ''application/json''), (''Authorization'', ''Bearer undefined'')],
       body = Some text \<rparr>"

definition sent_summary :: "log \<Rightarrow> (string \<times> string \<times> (string \<times> string) list) list" where
  \<comment> \<open>URL, method and headers of each request of a log.\<close>
  "sent_summary log = map (\<lambda>(input, init). (input, method' init, headers init)) log"


section \<open>The shape of every method\<close>

text \<open>
  Every method builds a URL and the options, calls \<^verbatim>\<open>fetch\<close> once unless building the
  URL threw, and settles to what the shared block makes of the outcome.
\<close>

lemmas Users_defs =
  Users_Create_def Users_CreateToken_def Users_RefreshToken_def Users_Update_def
  Users_UpdateEmail_def Users_UpdateUsername_def Users_UpdateProfilePicture_def
  Users_UpdateUserTags_def Users_UpdateUserPassword_def Users_UpdateUserRole_def
  Users_User_def Users_UserProfile_def Users_Users_def Users_Disable_def Users_Enable_def
  Users_ListUserGroups_def Users_ListUserClients_def Users_ListUserChannels_def
  Users_ResetPasswordRequest_def Users_ResetPassword_def Users_DeleteUser_def
  Users_SearchUsers_def

lemma try_json_settle:
  "try_json env net target options log =
     (case target of
        Inl e \<Rightarrow> (Inl e, log)
      | Inr u \<Rightarrow> (settle env None (net log (toString env u) options),
                  log @ [(toString env u, options)]))"
  by (simp add: try_json_def settle_def fetch_def split: sum.splits)

lemma try_status_settle:
  "try_status env net target options m log =
     (case target of
        Inl e \<Rightarrow> (Inl e, log)
      | Inr u \<Rightarrow> (settle env (Some m) (net log (toString env u) options),
                  log @ [(toString env u, options)]))"
  by (simp add: try_status_def settle_def fetch_def split: sum.splits)

lemma Users_run_shape:
  "\<exists>reference base options. \<forall>net log. Users_run env net this call log =
     (case new_URL env reference base of
        Inl e \<Rightarrow> (Inl e, log)
      | Inr u \<Rightarrow> (settle env (fixed_message call) (net log (toString env u) options),
                  log @ [(toString env u, options)]))"
  by (cases call; simp add: Users_defs Let_def try_json_settle try_status_settle cong: sum.case_cong;
      intro exI allI; rule refl)

lemma Journal_run_shape:
  "\<exists>reference base options. \<forall>net log. Journal_run env net this call log =
     (case new_URL env reference base of
        Inl e \<Rightarrow> (Inl e, log)
      | Inr u \<Rightarrow> (settle env None (net log (toString env u) options),
                  log @ [(toString env u, options)]))"
  by (cases call; simp add: Journal_Journal_def Let_def try_json_settle;
      intro exI allI; rule refl)

lemma shape_sent:
  assumes "(case target of
              Inl e \<Rightarrow> (Inl e, log)
            | Inr u \<Rightarrow> (settle env m (net log (toString env u) options),
                        log @ [(toString env u, options)])) = (r, log @ [(input, init)])"
  shows "r = settle env m (net log input init)"
  using assms by (cases target) auto

lemma shape_request:
  assumes "(case target of
              Inl e \<Rightarrow> (Inl e, log)
            | Inr u \<Rightarrow> (settle env m (net log (toString env u) options),
                        log @ [(toString env u, options)])) = (r, log @ [(input, init)])"
  shows "init = options \<and> (\<exists>u. target = Inr u \<and> input = toString env u)"
  using assms by (cases target) auto


lemma Users_run_sent:
  assumes "Users_run env net this call log = (r, log @ [(input, init)])"
  shows "r = settle env (fixed_message call) (net log input init)"
proof -
  obtain reference base options where
    "\<forall>net log. Users_run env net this call log =
       (case new_URL env reference base of
          Inl e \<Rightarrow> (Inl e, log)
        | Inr u \<Rightarrow> (settle env (fixed_message call) (net log (toString env u) options),
                    log @ [(toString env u, options)]))"
    using Users_run_shape by blast
  with assms show ?thesis
    by (intro shape_sent [where target = "new_URL env reference base" and options = options
          and net = net and env = env and log = log]) simp
qed

lemma Journal_run_sent:
  assumes "Journal_run env net this call log = (r, log @ [(input, init)])"
  shows "r = settle env None (net log input init)"
proof -
  obtain reference base options where
    "\<forall>net log. Journal_run env net this call log =
       (case new_URL env reference base of
          Inl e \<Rightarrow> (Inl e, log)
        | Inr u \<Rightarrow> (settle env None (net log (toString env u) options),
                    log @ [(toString env u, options)]))"
    using Journal_run_shape by blast
  with assms show ?thesis
    by (intro shape_sent [where target = "new_URL env reference base" and options = options
          and net = net and env = env and log = log]) simp
qed

lemma Users_run_credential:
  "\<exists>reference base options.
     (\<forall>net log. Users_run env net this call log =
        (case new_URL env reference base of
           Inl e \<Rightarrow> (Inl e, log)
         | Inr u \<Rightarrow> (settle env (fixed_message call) (net log (toString env u) options),
                     log @ [(toString env u, options)])))
     \<and> map_of (headers options) ''Authorization''
         = map_option ((@) ''Bearer '') (credential call)"
  by (cases call;
      simp add: Users_defs Let_def try_json_settle try_status_settle cong: sum.case_cong;
      intro exI conjI allI, rule refl, simp add: optional_def split: option.splits)

subsection \<open>What the \<^verbatim>\<open>try\<close> block settles to\<close>

lemma settle_not_ok:
  assumes "\<not> ok response"
  shows "\<exists>e. settle env m (Inr response) = Inl e"
    and "json response = Inr errorRes \<Longrightarrow> \<not> nullish errorRes \<Longrightarrow>
         \<exists>message. get_prop errorRes ''message'' = Inr message \<and>
            settle env m (Inr response) = Inl (HandleError env message (status response))"
  using assms
  by (auto simp: settle_def throw_unless_ok_def get_prop_def nullish_def
           split: sum.splits jsvalue.splits option.splits)

lemma settle_ok:
  assumes "ok response"
  shows "settle env m (Inr response) =
     (case m of
        None \<Rightarrow> json response
      | Some message \<Rightarrow>
          Inr (Object [(''status'', Number (status response)), (''message'', Str message)]))"
  using assms by (simp add: settle_def throw_unless_ok_def)

lemma settle_rejected: "settle env m (Inl e) = Inl e"
  by (simp add: settle_def)

lemma settle_json_rejected:
  assumes "json response = Inl e" and "\<not> ok response \<or> m = None"
  shows "settle env m (Inr response) = Inl e"
  using assms by (auto simp: settle_def throw_unless_ok_def)


lemma settle_thrown:
  assumes "settle env m fetched = Inl e"
  shows "fetched = Inl e \<or>
     (\<exists>response. fetched = Inr response \<and>
        (json response = Inl e \<or>
         (\<not> ok response \<and>
            (\<exists>errorRes. json response = Inr errorRes \<and>
               (get_prop errorRes ''message'' = Inl e \<or>
                (\<exists>message. get_prop errorRes ''message'' = Inr message
                    \<and> e = HandleError env message (status response)))))))"
  using assms
  by (auto simp: settle_def throw_unless_ok_def split: sum.splits if_splits option.splits)

subsection \<open>Constructors and lifetimes\<close>

lemma new_URL_absolute:
  assumes "new_URL env input None = Inr u"
  shows "has_scheme input"
  using assms by (auto simp: new_URL_def split: if_splits)

lemma Users_constructor_fields:
  assumes "Users_constructor env usersUrl' clientsUrl' = Inr this"
  shows "Users.contentType this = ''application/json''"
    and "usersEndpoint this = ''users''"
    and "searchEndpoint this = ''search''"
    and "new_URL env usersUrl' None = Inr (usersUrl this)"
    and "\<exists>s c. clientsUrl' = Some s \<and> new_URL env s None = Inr c \<and> clientsUrl this = Some c"
  using assms
  by (auto simp: Users_constructor_def new_URL_def has_scheme_def url_trim_def
           split: sum.splits option.splits if_splits)






subsection \<open>Running the methods on the reference platform\<close>

lemmas char_defs = is_alpha_def is_digit_def is_scheme_char_def is_c0_or_space_def
  is_tab_or_newline_def lower_def hex_digit_def

lemmas url_defs = new_URL_def has_scheme_def url_trim_def url_parser_basic_def split_first_def
  special_scheme_def default_port_def shorten_def parse_authority_def nat_of_digits_def
  url_serializer_basic_def toString_def decimal.simps digit_char_def http_url_def mailto_url_def

lemma env_simps:
  "url_parser reference_env = url_parser_basic"
  "url_serializer reference_env = url_serializer_basic"
  "Number_toString reference_env = Number_text"
  "URLSearchParams_toString reference_env = form_urlencoded"
  "JSON_stringify reference_env = json_text"
  "HandleError reference_env = HandleError_basic"
  by (simp_all add: reference_env_def)

lemma example_users_constructed:
  "Users_constructor reference_env ''http://localhost:9002'' (Some ''http://localhost:9006'')
     = Inr example_users"
  by (simp add: Users_constructor_def example_users_def url_defs char_defs env_simps Let_def)




lemma example_User_run:
  "Users_run reference_env net example_users (Call_User ''u1'' ''tok'') log =
     (settle reference_env None (net log ''http://localhost:9002/users/u1'' (get_with ''tok'')),
      log @ [(''http://localhost:9002/users/u1'', get_with ''tok'')])"
  by (simp add: Users_User_def try_json_settle example_users_def get_with_def
        url_defs char_defs env_simps Let_def)


lemma example_DeleteUser_run:
  "Users_run reference_env net example_users (Call_DeleteUser ''u1'' ''tok'') log =
     (settle reference_env (Some ''User deleted successfully'')
        (net log ''http://localhost:9002/users/u1'' (delete_with ''tok'')),
      log @ [(''http://localhost:9002/users/u1'', delete_with ''tok'')])"
  by (simp add: Users_DeleteUser_def try_status_settle example_users_def delete_with_def
        url_defs char_defs env_simps Let_def)







lemma example_CreateToken_sent:
  "sent_summary (snd (Users_run reference_env net example_users
       (Call_CreateToken [(''identity'', Str ''admin''), (''secret'', Str ''12345678'')]) []))
     = [(''http://localhost:9002/users/tokens/issue'', ''POST'',
         [(''Content-Type'', ''application/json'')])]"
  by (simp add: Users_CreateToken_def try_json_settle example_users_def sent_summary_def
        url_defs char_defs env_simps Let_def)

lemma example_ResetPasswordRequest_sent:
  "sent_summary (snd (Users_run reference_env net example_users
       (Call_ResetPasswordRequest ''a@b.c'' ''http://ui.example'') []))
     = [(''http://localhost:9002/password/reset-request'', ''POST'',
         [(''Content-Type'', ''application/json''), (''Referer'', ''http://ui.example'')])]"
  by (simp add: Users_ResetPasswordRequest_def try_status_settle example_users_def sent_summary_def
        url_defs char_defs env_simps Let_def)

lemma example_ResetPassword_sent:
  "sent_summary (snd (Users_run reference_env net example_users
       (Call_ResetPassword ''secret12'' ''secret12'' ''tok'') []))
     = [(''http://localhost:9002/password/reset'', ''PUT'',
         [(''Content-Type'', ''application/json'')])]"
  by (simp add: Users_ResetPassword_def try_status_settle example_users_def sent_summary_def
        url_defs char_defs env_simps Let_def)

lemma settle_not_found:
  "settle reference_env m (Inr not_found) =
     Inl (Thrown (Object [(''status'', Number 404), (''error'', Str ''not found'')]))"
  by (simp add: settle_def throw_unless_ok_def not_found_def get_prop_def nullish_def
        env_simps HandleError_basic_def)

lemma found_User_run:
  "Users_run reference_env (answer found) example_users (Call_User ''u1'' ''tok'') [] =
     (Inr (Object [(''id'', Str ''u1'')]),
      [] @ [(''http://localhost:9002/users/u1'', get_with ''tok'')])"
  unfolding example_User_run
  by (simp add: answer_def settle_ok found_def)


section \<open>The claims\<close>

subsection \<open>Error mapping and return values\<close>

text \<open>
  \<^bold>\<open>C1 (amended).\<close> For every public request method of \<^verbatim>\<open>Users\<close> and \<^verbatim>\<open>Journal\<close>:
  when the response \<^verbatim>\<open>fetch\<close> resolved to has \<^verbatim>\<open>response.ok\<close> false, the method does
  not return a value: it throws. When the error body parses as JSON to a value
  \<open>errorRes\<close> other than \<open>null\<close>, what it throws is
  \<^verbatim>\<open>Errors.HandleError(errorRes.message, response.status)\<close>.
\<close>

theorem non_success_status_throws_HandleError:
  assumes "net log input init = Inr response" and "\<not> ok response"
  shows "(Users_run env net this call log = (r, log @ [(input, init)]) \<longrightarrow>
            (\<exists>e. r = Inl e) \<and>
            (\<forall>errorRes. json response = Inr errorRes \<and> \<not> nullish errorRes \<longrightarrow>
               (\<exists>message. get_prop errorRes ''message'' = Inr message \<and>
                  r = Inl (HandleError env message (status response)))))
       \<and> (Journal_run env net jthis jcall log = (r', log @ [(input, init)]) \<longrightarrow>
            (\<exists>e. r' = Inl e) \<and>
            (\<forall>errorRes. json response = Inr errorRes \<and> \<not> nullish errorRes \<longrightarrow>
               (\<exists>message. get_prop errorRes ''message'' = Inr message \<and>
                  r' = Inl (HandleError env message (status response)))))"
  using assms settle_not_ok [where response = response and env = env and m = "fixed_message call"]
        settle_not_ok [where response = response and env = env and m = None]
        Users_run_sent [of env net this call log r input init]
        Journal_run_sent [of env net jthis jcall log r' input init]
  by auto

text \<open>
  A 404 response with the body \<^verbatim>\<open>{"message": "not found"}\<close> to \<^verbatim>\<open>Users.User\<close>.
\<close>

theorem non_success_status_throws_HandleError_witness:
  "answer not_found [] ''http://localhost:9002/users/u1'' (get_with ''tok'') = Inr not_found
   \<and> \<not> ok not_found
   \<and> json not_found = Inr (Object [(''message'', Str ''not found'')])
   \<and> \<not> nullish (Object [(''message'', Str ''not found'')])
   \<and> Users_run reference_env (answer not_found) example_users (Call_User ''u1'' ''tok'') [] =
       (Inl (HandleError reference_env (Str ''not found'') 404),
        [] @ [(''http://localhost:9002/users/u1'', get_with ''tok'')])
   \<and> get_prop (Object [(''message'', Str ''not found'')]) ''message'' = Inr (Str ''not found'')"
proof -
  have fetched: "answer not_found [] ''http://localhost:9002/users/u1'' (get_with ''tok'') = Inr not_found"
    by (simp add: answer_def)
  have status: "\<not> ok not_found"
    by (simp add: not_found_def)
  have run: "Users_run reference_env (answer not_found) example_users (Call_User ''u1'' ''tok'') [] =
       (Inl (HandleError reference_env (Str ''not found'') 404),
        [] @ [(''http://localhost:9002/users/u1'', get_with ''tok'')])"
    unfolding example_User_run
    by (simp add: answer_def settle_not_found env_simps HandleError_basic_def)
  from non_success_status_throws_HandleError
         [where env = reference_env and net = "answer not_found" and log = "[]"
            and input = "''http://localhost:9002/users/u1''" and init = "get_with ''tok''"
            and response = not_found and this = example_users
            and call = "Call_User ''u1'' ''tok''"
            and r = "Inl (HandleError reference_env (Str ''not found'') 404)",
          OF fetched status]
       fetched status run
  show ?thesis
    by (simp add: not_found_def nullish_def get_prop_def)
qed

text \<open>
  The claim as stated (every non-success response ends in the error of
  \<^verbatim>\<open>Errors.HandleError\<close>) fails where the error body is not JSON, as with the HTML page
  of a gateway's 502: \<^verbatim>\<open>response.json()\<close> rejects inside the \<^verbatim>\<open>if\<close> and that
  \<open>SyntaxError\<close> is what the method throws. On the body \<^verbatim>\<open>null\<close> reading
  \<^verbatim>\<open>errorRes.message\<close> throws a \<open>TypeError\<close>.
\<close>

theorem error_body_not_JSON_counterexample:
  "Users_constructor reference_env ''http://localhost:9002'' (Some ''http://localhost:9006'')
     = Inr example_users
   \<and> \<not> ok bad_gateway
   \<and> json bad_gateway = Inl (SyntaxError ''Unexpected token < in JSON'')
   \<and> Users_run reference_env (answer bad_gateway) example_users (Call_User ''u1'' ''tok'') [] =
       (Inl (SyntaxError ''Unexpected token < in JSON''),
        [(''http://localhost:9002/users/u1'', get_with ''tok'')])
   \<and> \<not> ok null_body
   \<and> json null_body = Inr Null
   \<and> Users_run reference_env (answer null_body) example_users (Call_User ''u1'' ''tok'') [] =
       (Inl (TypeError ''Cannot read properties of null''),
        [(''http://localhost:9002/users/u1'', get_with ''tok'')])"
  unfolding example_User_run
  by (simp add: example_users_constructed answer_def settle_def throw_unless_ok_def get_prop_def
        bad_gateway_def null_body_def)

text \<open>
  \<^bold>\<open>C2 (amended).\<close> When the response has a success status, every method except
  \<^verbatim>\<open>ResetPasswordRequest\<close>, \<^verbatim>\<open>ResetPassword\<close> and \<^verbatim>\<open>DeleteUser\<close> settles to what
  \<^verbatim>\<open>response.json()\<close> settles to: it returns the parsed body. Those three do not read
  the body: they return \<^verbatim>\<open>{ status: response.status, message: <fixed text> }\<close>.
\<close>

theorem success_returns_body_or_fixed_status:
  assumes "net log input init = Inr response" and "ok response"
  shows "(Users_run env net this call log = (r, log @ [(input, init)]) \<longrightarrow>
            r = (case fixed_message call of
                   None \<Rightarrow> json response
                 | Some message \<Rightarrow>
                     Inr (Object [(''status'', Number (status response)),
                                  (''message'', Str message)])))
       \<and> (Journal_run env net jthis jcall log = (r', log @ [(input, init)]) \<longrightarrow>
            r' = json response)"
proof (intro conjI impI)
  assume "Users_run env net this call log = (r, log @ [(input, init)])"
  from Users_run_sent [OF this] assms
  show "r = (case fixed_message call of
               None \<Rightarrow> json response
             | Some message \<Rightarrow>
                 Inr (Object [(''status'', Number (status response)),
                              (''message'', Str message)]))"
    by (simp add: settle_ok)
next
  assume "Journal_run env net jthis jcall log = (r', log @ [(input, init)])"
  from Journal_run_sent [OF this] assms
  show "r' = json response"
    by (simp add: settle_ok)
qed

text \<open>
  A 200 response with the body \<^verbatim>\<open>{"id": "u1"}\<close> to \<^verbatim>\<open>Users.User\<close>.
\<close>

theorem success_returns_body_or_fixed_status_witness:
  "answer found [] ''http://localhost:9002/users/u1'' (get_with ''tok'') = Inr found
   \<and> ok found
   \<and> Users_run reference_env (answer found) example_users (Call_User ''u1'' ''tok'') [] =
       (Inr (Object [(''id'', Str ''u1'')]),
        [] @ [(''http://localhost:9002/users/u1'', get_with ''tok'')])
   \<and> fixed_message (Call_User ''u1'' ''tok'') = None
   \<and> json found = Inr (Object [(''id'', Str ''u1'')])"
proof -
  have fetched: "answer found [] ''http://localhost:9002/users/u1'' (get_with ''tok'') = Inr found"
    by (simp add: answer_def)
  have status: "ok found"
    by (simp add: found_def)
  have run: "Users_run reference_env (answer found) example_users (Call_User ''u1'' ''tok'') [] =
       (Inr (Object [(''id'', Str ''u1'')]),
        [] @ [(''http://localhost:9002/users/u1'', get_with ''tok'')])"
    unfolding example_User_run
    by (simp add: answer_def settle_ok found_def)
  from success_returns_body_or_fixed_status
         [where env = reference_env and net = "answer found" and log = "[]"
            and input = "''http://localhost:9002/users/u1''" and init = "get_with ''tok''"
            and response = found and this = example_users
            and call = "Call_User ''u1'' ''tok''"
            and r = "Inr (Object [(''id'', Str ''u1'')])",
          OF fetched status]
       fetched status run
  show ?thesis
    by (simp add: found_def)
qed

text \<open>
  The claim as stated fails for \<^verbatim>\<open>DeleteUser\<close>: on a 200 response whose body parses to
  \<^verbatim>\<open>{"id": "u1"}\<close> it returns the status object, not the body; and on a 200 response
  whose body does not parse it still returns the status object.
\<close>

theorem status_methods_ignore_body_counterexample:
  "Users_constructor reference_env ''http://localhost:9002'' (Some ''http://localhost:9006'')
     = Inr example_users
   \<and> ok found
   \<and> json found = Inr (Object [(''id'', Str ''u1'')])
   \<and> Users_run reference_env (answer found) example_users (Call_DeleteUser ''u1'' ''tok'') [] =
       (Inr (Object [(''status'', Number 200), (''message'', Str ''User deleted successfully'')]),
        [(''http://localhost:9002/users/u1'', delete_with ''tok'')])
   \<and> Inr (Object [(''status'', Number 200), (''message'', Str ''User deleted successfully'')])
       \<noteq> json found
   \<and> ok unparsable
   \<and> json unparsable = Inl (SyntaxError ''Unexpected end of JSON input'')
   \<and> Users_run reference_env (answer unparsable) example_users (Call_DeleteUser ''u1'' ''tok'') [] =
       (Inr (Object [(''status'', Number 200), (''message'', Str ''User deleted successfully'')]),
        [(''http://localhost:9002/users/u1'', delete_with ''tok'')])"
  unfolding example_DeleteUser_run
  by (simp add: example_users_constructed answer_def settle_ok found_def unparsable_def)

text \<open>
  \<^bold>\<open>C3.\<close> For every public request method of \<^verbatim>\<open>Users\<close> and \<^verbatim>\<open>Journal\<close>: when
  \<^verbatim>\<open>fetch\<close> rejects with \<open>e\<close>, the method throws exactly \<open>e\<close>; when
  \<^verbatim>\<open>response.json()\<close> is awaited and rejects with \<open>e\<close>, the method throws exactly \<open>e\<close>.
  (The three status methods await \<^verbatim>\<open>response.json()\<close> only on a non-success response.)
  Nothing is wrapped: whatever the method throws after its request was sent is the
  rejection of \<^verbatim>\<open>fetch\<close>, the rejection of \<^verbatim>\<open>response.json()\<close>, the \<open>TypeError\<close> of
  reading \<^verbatim>\<open>errorRes.message\<close>, or, on a non-success response, the value of
  \<^verbatim>\<open>Errors.HandleError\<close>.
\<close>

theorem other_failures_propagate_unchanged:
  "(Users_run env net this call log = (r, log @ [(input, init)]) \<longrightarrow>
      (\<forall>e. net log input init = Inl e \<longrightarrow> r = Inl e) \<and>
      (\<forall>response e. net log input init = Inr response \<and> json response = Inl e
          \<and> (\<not> ok response \<or> fixed_message call = None) \<longrightarrow> r = Inl e) \<and>
      (\<forall>e. r = Inl e \<longrightarrow>
          net log input init = Inl e \<or>
          (\<exists>response. net log input init = Inr response \<and>
             (json response = Inl e \<or>
              (\<not> ok response \<and>
                 (\<exists>errorRes. json response = Inr errorRes \<and>
                    (get_prop errorRes ''message'' = Inl e \<or>
                     (\<exists>message. get_prop errorRes ''message'' = Inr message
                         \<and> e = HandleError env message (status response)))))))))
   \<and> (Journal_run env net jthis jcall log = (r', log @ [(input, init)]) \<longrightarrow>
      (\<forall>e. net log input init = Inl e \<longrightarrow> r' = Inl e) \<and>
      (\<forall>response e. net log input init = Inr response \<and> json response = Inl e
          \<longrightarrow> r' = Inl e) \<and>
      (\<forall>e. r' = Inl e \<longrightarrow>
          net log input init = Inl e \<or>
          (\<exists>response. net log input init = Inr response \<and>
             (json response = Inl e \<or>
              (\<not> ok response \<and>
                 (\<exists>errorRes. json response = Inr errorRes \<and>
                    (get_prop errorRes ''message'' = Inl e \<or>
                     (\<exists>message. get_prop errorRes ''message'' = Inr message
                         \<and> e = HandleError env message (status response)))))))))"
proof (intro conjI impI allI)
  fix e
  assume run: "Users_run env net this call log = (r, log @ [(input, init)])"
    and "net log input init = Inl e"
  with Users_run_sent [OF run] show "r = Inl e"
    by (simp add: settle_rejected)
next
  fix response e
  assume run: "Users_run env net this call log = (r, log @ [(input, init)])"
    and *: "net log input init = Inr response \<and> json response = Inl e
          \<and> (\<not> ok response \<or> fixed_message call = None)"
  with Users_run_sent [OF run] have "r = settle env (fixed_message call) (Inr response)"
    by simp
  with * show "r = Inl e"
    using settle_json_rejected [of response e "fixed_message call" env] by blast
next
  fix e
  assume run: "Users_run env net this call log = (r, log @ [(input, init)])"
    and "r = Inl e"
  with Users_run_sent [OF run]
  have "settle env (fixed_message call) (net log input init) = Inl e"
    by simp
  from settle_thrown [OF this]
  show "net log input init = Inl e \<or>
          (\<exists>response. net log input init = Inr response \<and>
             (json response = Inl e \<or>
              (\<not> ok response \<and>
                 (\<exists>errorRes. json response = Inr errorRes \<and>
                    (get_prop errorRes ''message'' = Inl e \<or>
                     (\<exists>message. get_prop errorRes ''message'' = Inr message
                         \<and> e = HandleError env message (status response)))))))" .
next
  fix e
  assume run: "Journal_run env net jthis jcall log = (r', log @ [(input, init)])"
    and "net log input init = Inl e"
  with Journal_run_sent [OF run] show "r' = Inl e"
    by (simp add: settle_rejected)
next
  fix response e
  assume run: "Journal_run env net jthis jcall log = (r', log @ [(input, init)])"
    and *: "net log input init = Inr response \<and> json response = Inl e"
  with Journal_run_sent [OF run] have "r' = settle env None (Inr response)"
    by simp
  with * show "r' = Inl e"
    using settle_json_rejected [of response e None env] by blast
next
  fix e
  assume run: "Journal_run env net jthis jcall log = (r', log @ [(input, init)])"
    and "r' = Inl e"
  with Journal_run_sent [OF run]
  have "settle env None (net log input init) = Inl e"
    by simp
  from settle_thrown [OF this]
  show "net log input init = Inl e \<or>
          (\<exists>response. net log input init = Inr response \<and>
             (json response = Inl e \<or>
              (\<not> ok response \<and>
                 (\<exists>errorRes. json response = Inr errorRes \<and>
                    (get_prop errorRes ''message'' = Inl e \<or>
                     (\<exists>message. get_prop errorRes ''message'' = Inr message
                         \<and> e = HandleError env message (status response)))))))" .
qed

text \<open>
  \<^verbatim>\<open>Users.User\<close> when \<^verbatim>\<open>fetch\<close> rejects with a \<open>TypeError\<close>, and when the body of
  a 200 response does not parse.
\<close>

theorem other_failures_propagate_unchanged_witness:
  "refuse (TypeError ''fetch failed'') [] ''http://localhost:9002/users/u1'' (get_with ''tok'')
       = Inl (TypeError ''fetch failed'')
   \<and> Users_run reference_env (refuse (TypeError ''fetch failed'')) example_users
         (Call_User ''u1'' ''tok'') [] =
       (Inl (TypeError ''fetch failed''),
        [] @ [(''http://localhost:9002/users/u1'', get_with ''tok'')])
   \<and> answer unparsable [] ''http://localhost:9002/users/u1'' (get_with ''tok'') = Inr unparsable
   \<and> json unparsable = Inl (SyntaxError ''Unexpected end of JSON input'')
   \<and> fixed_message (Call_User ''u1'' ''tok'') = None
   \<and> Users_run reference_env (answer unparsable) example_users (Call_User ''u1'' ''tok'') [] =
       (Inl (SyntaxError ''Unexpected end of JSON input''),
        [] @ [(''http://localhost:9002/users/u1'', get_with ''tok'')])"
proof -
  have rejected:
    "refuse (TypeError ''fetch failed'') [] ''http://localhost:9002/users/u1'' (get_with ''tok'')
       = Inl (TypeError ''fetch failed'')"
    by (simp add: refuse_def)
  obtain r where run:
    "Users_run reference_env (refuse (TypeError ''fetch failed'')) example_users
         (Call_User ''u1'' ''tok'') [] =
       (r, [] @ [(''http://localhost:9002/users/u1'', get_with ''tok'')])"
    unfolding example_User_run by simp
  from other_failures_propagate_unchanged
         [where env = reference_env and net = "refuse (TypeError ''fetch failed'')" and log = "[]"
            and input = "''http://localhost:9002/users/u1''" and init = "get_with ''tok''"
            and this = example_users and call = "Call_User ''u1'' ''tok''" and r = r]
       rejected run
  have first: "r = Inl (TypeError ''fetch failed'')"
    by blast
  have fetched:
    "answer unparsable [] ''http://localhost:9002/users/u1'' (get_with ''tok'') = Inr unparsable"
    by (simp add: answer_def)
  have body: "json unparsable = Inl (SyntaxError ''Unexpected end of JSON input'')"
    by (simp add: unparsable_def)
  have kind: "fixed_message (Call_User ''u1'' ''tok'') = None"
    by simp
  obtain r' where run':
    "Users_run reference_env (answer unparsable) example_users (Call_User ''u1'' ''tok'') [] =
       (r', [] @ [(''http://localhost:9002/users/u1'', get_with ''tok'')])"
    unfolding example_User_run by simp
  from other_failures_propagate_unchanged
         [where env = reference_env and net = "answer unparsable" and log = "[]"
            and input = "''http://localhost:9002/users/u1''" and init = "get_with ''tok''"
            and this = example_users and call = "Call_User ''u1'' ''tok''" and r = r']
       fetched body kind run'
  have second: "r' = Inl (SyntaxError ''Unexpected end of JSON input'')"
    by blast
  from rejected run first fetched body kind run' second show ?thesis
    by simp
qed

subsection \<open>One request per call\<close>




subsection \<open>Request construction\<close>

text \<open>
  \<^bold>\<open>C5 (amended).\<close> Every request issued by a public method of \<^verbatim>\<open>Users\<close> and
  \<^verbatim>\<open>Journal\<close> other than \<^verbatim>\<open>CreateToken\<close>, \<^verbatim>\<open>ResetPasswordRequest\<close> and
  \<^verbatim>\<open>ResetPassword\<close> carries the header \<^verbatim>\<open>Authorization\<close> with the value \<open>Bearer\<close>,
  a space, and the call's credential (see \<open>credential\<close>). The requests of those three
  carry no \<^verbatim>\<open>Authorization\<close> header.
\<close>

theorem bearer_token_header:
  "(Users_run env net this call log = (r, log @ [(input, init)]) \<longrightarrow>
      map_of (headers init) ''Authorization'' = map_option ((@) ''Bearer '') (credential call))
   \<and> (Journal_run env net jthis (Call_Journal entityType entityId domainId queryParams token) log
         = (r', log @ [(input, init)]) \<longrightarrow>
      map_of (headers init) ''Authorization'' = Some (''Bearer '' @ token))"
proof (intro conjI impI)
  assume run: "Users_run env net this call log = (r, log @ [(input, init)])"
  obtain reference base options where
    shape: "\<forall>net log. Users_run env net this call log =
        (case new_URL env reference base of
           Inl e \<Rightarrow> (Inl e, log)
         | Inr u \<Rightarrow> (settle env (fixed_message call) (net log (toString env u) options),
                     log @ [(toString env u, options)]))"
    and auth: "map_of (headers options) ''Authorization''
         = map_option ((@) ''Bearer '') (credential call)"
    using Users_run_credential by blast
  from run shape have
    "(case new_URL env reference base of
           Inl e \<Rightarrow> (Inl e, log)
         | Inr u \<Rightarrow> (settle env (fixed_message call) (net log (toString env u) options),
                     log @ [(toString env u, options)])) = (r, log @ [(input, init)])"
    by simp
  from shape_request [where target = "new_URL env reference base" and options = options
        and net = net and env = env and log = log, OF this]
  have "init = options" by blast
  with auth show "map_of (headers init) ''Authorization''
      = map_option ((@) ''Bearer '') (credential call)"
    by simp
next
  assume "Journal_run env net jthis (Call_Journal entityType entityId domainId queryParams token) log
         = (r', log @ [(input, init)])"
  then have
    "(case new_URL env
             (domainId @ ''/'' @ journalsEndpoint jthis @ ''/'' @ entityType @ ''/'' @ entityId
                @ ''?'' @ URLSearchParams_toString env (stringParams env queryParams))
             (Some (journalsUrl jthis)) of
        Inl e \<Rightarrow> (Inl e, log)
      | Inr u \<Rightarrow>
          (settle env None (net log (toString env u)
              \<lparr> method' = ''GET'',
                headers = [(''Content-Type'', contentType jthis),
                           (''Authorization'', ''Bearer '' @ token)],
                body = None \<rparr>),
           log @ [(toString env u,
              \<lparr> method' = ''GET'',
                headers = [(''Content-Type'', contentType jthis),
                           (''Authorization'', ''Bearer '' @ token)],
                body = None \<rparr>)])) = (r', log @ [(input, init)])"
    by (simp add: Journal_Journal_def Let_def try_json_settle cong: sum.case_cong)
  from shape_request [where net = net and env = env and log = log, OF this]
  show "map_of (headers init) ''Authorization'' = Some (''Bearer '' @ token)"
    by simp
qed

text \<open>
  The request of \<^verbatim>\<open>Users.User("u1", "tok")\<close>.
\<close>

theorem bearer_token_header_witness:
  "Users_run reference_env (answer found) example_users (Call_User ''u1'' ''tok'') [] =
     (Inr (Object [(''id'', Str ''u1'')]),
      [] @ [(''http://localhost:9002/users/u1'', get_with ''tok'')])
   \<and> map_of (headers (get_with ''tok'')) ''Authorization'' = Some ''Bearer tok''
   \<and> credential (Call_User ''u1'' ''tok'') = Some ''tok''"
  using bearer_token_header
          [where env = reference_env and net = "answer found" and log = "[]"
             and this = example_users and call = "Call_User ''u1'' ''tok''"
             and r = "Inr (Object [(''id'', Str ''u1'')])"
             and input = "''http://localhost:9002/users/u1''" and init = "get_with ''tok''"]
        found_User_run
  by simp

text \<open>
  The claim as stated ("this holds for every method, including CreateToken,
  ResetPasswordRequest, and ResetPassword") fails for exactly those three: the headers
  of their requests are \<^verbatim>\<open>Content-Type\<close> alone, or \<^verbatim>\<open>Content-Type\<close> and
  \<^verbatim>\<open>Referer\<close>.
\<close>

theorem no_Authorization_header_counterexample:
  "Users_constructor reference_env ''http://localhost:9002'' (Some ''http://localhost:9006'')
     = Inr example_users
   \<and> sent_summary (snd (Users_run reference_env (answer found) example_users
       (Call_CreateToken [(''identity'', Str ''admin''), (''secret'', Str ''12345678'')]) []))
     = [(''http://localhost:9002/users/tokens/issue'', ''POST'',
         [(''Content-Type'', ''application/json'')])]
   \<and> map_of [(''Content-Type'', ''application/json'')] ''Authorization'' = None
   \<and> sent_summary (snd (Users_run reference_env (answer found) example_users
       (Call_ResetPasswordRequest ''a@b.c'' ''http://ui.example'') []))
     = [(''http://localhost:9002/password/reset-request'', ''POST'',
         [(''Content-Type'', ''application/json''), (''Referer'', ''http://ui.example'')])]
   \<and> map_of [(''Content-Type'', ''application/json''), (''Referer'', ''http://ui.example'')]
         ''Authorization'' = None
   \<and> sent_summary (snd (Users_run reference_env (answer found) example_users
       (Call_ResetPassword ''secret12'' ''secret12'' ''tok'') []))
     = [(''http://localhost:9002/password/reset'', ''PUT'',
         [(''Content-Type'', ''application/json'')])]"
  unfolding example_CreateToken_sent example_ResetPasswordRequest_sent example_ResetPassword_sent
  by (simp add: example_users_constructed)



text \<open>
  \<^bold>\<open>C9.\<close> \<^verbatim>\<open>Users.Create\<close> called without its \<open>token\<close> argument runs the same
  \<^verbatim>\<open>try\<close> block with the header \<^verbatim>\<open>Authorization: Bearer undefined\<close>; whenever the
  request URL can be built, that request is sent; and the requests go to the same URLs
  as when a token is passed.
\<close>

theorem Create_without_token_sends_Bearer_undefined:
  "Users_Create env net this user None log =
     try_json env net (new_URL env (usersEndpoint this) (Some (usersUrl this)))
       \<lparr> method' = ''POST'',
         headers = [(''Content-Type'', Users.contentType this),
                    (''Authorization'', ''Bearer undefined'')],
         body = Some (JSON_stringify env (Object user)) \<rparr> log
   \<and> (new_URL env (usersEndpoint this) (Some (usersUrl this)) = Inr u \<longrightarrow>
        snd (Users_Create env net this user None log) =
          log @ [(toString env u,
                  \<lparr> method' = ''POST'',
                    headers = [(''Content-Type'', Users.contentType this),
                               (''Authorization'', ''Bearer undefined'')],
                    body = Some (JSON_stringify env (Object user)) \<rparr>)])
   \<and> map fst (snd (Users_Create env net this user None log))
       = map fst (snd (Users_Create env net this user (Some token) log))"
  by (simp add: Users_Create_def Let_def optional_def try_json_settle split: sum.splits)

text \<open>
  \<^verbatim>\<open>Users.Create({})\<close> on the client of \<^verbatim>\<open>http://localhost:9002\<close>.
\<close>

theorem Create_without_token_sends_Bearer_undefined_witness:
  "new_URL reference_env (usersEndpoint example_users) (Some (usersUrl example_users))
     = Inr (http_url ''localhost'' (Some 9002) [''users''] None)
   \<and> snd (Users_Create reference_env (answer found) example_users [] None []) =
       [] @ [(''http://localhost:9002/users'', post_undefined ''{}'')]"
proof -
  have url: "new_URL reference_env (usersEndpoint example_users) (Some (usersUrl example_users))
     = Inr (http_url ''localhost'' (Some 9002) [''users''] None)"
    by (simp add: example_users_def url_defs char_defs env_simps Let_def)
  from Create_without_token_sends_Bearer_undefined
         [where env = reference_env and net = "answer found" and this = example_users
            and user = "[]" and log = "[]"
            and u = "http_url ''localhost'' (Some 9002) [''users''] None",
          THEN conjunct2, THEN conjunct1, rule_format, OF url]
  have "snd (Users_Create reference_env (answer found) example_users [] None []) =
       [] @ [(''http://localhost:9002/users'', post_undefined ''{}'')]"
    by (simp add: post_undefined_def example_users_def url_defs env_simps)
  with url show ?thesis
    by simp
qed




subsection \<open>Client state\<close>



text \<open>
  \<^bold>\<open>C8.\<close> \<^verbatim>\<open>new URL("")\<close> throws; so the \<^verbatim>\<open>Users\<close> constructor throws whenever
  \<open>clientsUrl\<close> is omitted, and a \<^verbatim>\<open>Users\<close> instance exists only when both
  \<open>usersUrl\<close> and \<open>clientsUrl\<close> are given and are absolute URLs (they carry a scheme)
  that \<^verbatim>\<open>new URL\<close> accepts.
\<close>

theorem constructor_requires_clientsUrl:
  "new_URL env [] None = Inl (TypeError ''Invalid URL'')
   \<and> (\<exists>e. Users_constructor env usersUrl' None = Inl e)
   \<and> (Users_constructor env usersUrl' clientsUrl' = Inr this \<longrightarrow>
        (\<exists>s c. clientsUrl' = Some s
           \<and> has_scheme usersUrl' \<and> has_scheme s
           \<and> new_URL env usersUrl' None = Inr (usersUrl this)
           \<and> new_URL env s None = Inr c \<and> clientsUrl this = Some c))"
proof (intro conjI impI)
  show empty: "new_URL env [] None = Inl (TypeError ''Invalid URL'')"
    by (simp add: new_URL_def has_scheme_def url_trim_def)
  then show "\<exists>e. Users_constructor env usersUrl' None = Inl e"
    by (simp add: Users_constructor_def split: sum.splits)
next
  assume built: "Users_constructor env usersUrl' clientsUrl' = Inr this"
  from Users_constructor_fields(4,5) [OF built] new_URL_absolute [of env]
  show "\<exists>s c. clientsUrl' = Some s
           \<and> has_scheme usersUrl' \<and> has_scheme s
           \<and> new_URL env usersUrl' None = Inr (usersUrl this)
           \<and> new_URL env s None = Inr c \<and> clientsUrl this = Some c"
    by blast
qed

text \<open>
  \<^verbatim>\<open>new Users({usersUrl: "http://localhost:9002", clientsUrl: "http://localhost:9006"})\<close>
  succeeds; without \<open>clientsUrl\<close> it throws.
\<close>

theorem constructor_requires_clientsUrl_witness:
  "Users_constructor reference_env ''http://localhost:9002'' (Some ''http://localhost:9006'')
     = Inr example_users
   \<and> has_scheme ''http://localhost:9002''
   \<and> has_scheme ''http://localhost:9006''
   \<and> new_URL reference_env ''http://localhost:9002'' None = Inr (usersUrl example_users)
   \<and> Users_constructor reference_env ''http://localhost:9002'' None
       = Inl (TypeError ''Invalid URL'')"
proof -
  have none: "Users_constructor reference_env ''http://localhost:9002'' None
       = Inl (TypeError ''Invalid URL'')"
    by (simp add: Users_constructor_def example_users_def url_defs char_defs env_simps Let_def)
  from constructor_requires_clientsUrl
         [where env = reference_env and usersUrl' = "''http://localhost:9002''"
            and clientsUrl' = "Some ''http://localhost:9006''" and this = example_users]
       example_users_constructed
  have "has_scheme ''http://localhost:9002'' \<and> has_scheme ''http://localhost:9006''
      \<and> new_URL reference_env ''http://localhost:9002'' None = Inr (usersUrl example_users)"
    by auto
  with none example_users_constructed show ?thesis
    by simp
qed

end
